theory Spec2Isabelle
  imports Main "HOL-Library.Word" "HOL-Library.Sublist"
begin

section \<open>The Redis cache provider of the aah framework\<close>

text \<open>
  The development follows redis.go in its latest revision (the second file of
  src/unnamed/part_000, the one with \<open>notacacheMiss\<close>): \<open>Provider.Create\<close> and the
  methods of \<open>redisCache\<close>. The two libraries the adapter is written against, the
  go-redis client and encoding/gob, are not code of this repository; they enter
  the model as parameters (records of functions), so that every theorem holds for
  whatever the store answers and however the codec lays out its bytes. The earlier
  revisions kept beside it (src/redis.go and the first file of part_000) differ in
  that \<open>GetOrPut\<close>, \<open>Delete\<close> and \<open>Flush\<close> have no error result and nothing is logged.
\<close>

subsection \<open>Data\<close>

text \<open>A Go \<open>error\<close> is identified with the text its \<open>Error()\<close> method returns; the nil
  error is \<open>None\<close>.\<close>

type_synonym error = string

type_synonym bytes = "8 word list"

text \<open>\<open>time.Duration\<close> is an int64 count of nanoseconds.\<close>

type_synonym duration = "64 word"

text \<open>A value of type \<open>interface{}\<close>: the nil interface, or a value together with the name
  of its concrete type.\<close>

datatype 'v iface = GoNil | Val string 'v

text \<open>\<open>type entry struct { D time.Duration; V interface{} }\<close>\<close>

record 'v entry =
  D :: duration
  V :: "'v iface"

text \<open>The eviction modes of the cache package. The adapter only ever asks whether the
  mode is \<open>EvictionModeSlide\<close>; \<open>EvictionModeFixed\<close> stands for every other mode.\<close>

datatype EvictionMode = EvictionModeSlide | EvictionModeFixed

text \<open>\<open>cache.Config\<close>, with the fields the adapter reads.\<close>

record Config =
  Name :: string
  ProviderName :: string
  EvictionMode :: EvictionMode

text \<open>\<open>type redisCache struct { keyPrefix string; p *Provider }\<close>. The pointer \<open>p\<close> is the
  one provider of the state below.\<close>

record redisCache =
  keyPrefix :: string

subsection \<open>The store client\<close>

text \<open>The six commands the adapter sends through \<open>*redis.Client\<close>.\<close>

datatype cmd =
    GET string
  | SET string bytes duration
  | DEL string
  | EXISTS string
  | EXPIRE string duration
  | FLUSHDB

text \<open>The client, over a state \<open>'s\<close> of the connection and the server behind it. Each
  command returns the error of its \<open>Cmd\<close> (\<open>None\<close> for nil) or its reply.\<close>

record 's redis =
  cmdGet :: "string \<Rightarrow> 's \<Rightarrow> (error + bytes) \<times> 's"
  cmdSet :: "string \<Rightarrow> bytes \<Rightarrow> duration \<Rightarrow> 's \<Rightarrow> error option \<times> 's"
  cmdDel :: "string \<Rightarrow> 's \<Rightarrow> error option \<times> 's"
  cmdExists :: "string \<Rightarrow> 's \<Rightarrow> (error + 64 word) \<times> 's"
  cmdExpire :: "string \<Rightarrow> duration \<Rightarrow> 's \<Rightarrow> error option \<times> 's"
  cmdFlushDB :: "'s \<Rightarrow> error option \<times> 's"

subsection \<open>The codec\<close>

text \<open>encoding/gob: the names of the types registered with \<open>gob.Register\<close> (the basic
  types are registered by the package itself), the encoding of an entry whose
  value may be sent, and the decoder.\<close>

record 'v gob =
  registry :: "string list"
  marshal :: "'v entry \<Rightarrow> error + bytes"
  Decode :: "bytes \<Rightarrow> error + 'v entry"

text \<open>\<open>Encoder.Encode\<close> on an entry. The field \<open>V\<close> is an interface: a nil interface is
  left out of the message, and a value whose concrete type was never registered
  is refused with the error that redis_test.go expects for its unregistered
  struct.\<close>

definition Encode :: "'v gob \<Rightarrow> 'v entry \<Rightarrow> error + bytes" where
  "Encode g e =
     (case V e of
        GoNil \<Rightarrow> marshal g e
      | Val t x \<Rightarrow>
          if t \<in> set (registry g) then marshal g e
          else Inl (''gob: type not registered for interface: '' @ t))"

subsection \<open>State\<close>

text \<open>What the methods read and write: the provider's \<open>cfg\<close>, the state behind its
  \<open>client\<close>, the lines written to its \<open>logger\<close>, and the package's \<open>bufPool\<close> (the
  contents of the pooled buffers). \<open>sent\<close> is a ghost field: the commands the
  adapter has issued, in order.\<close>

record 's world =
  cfg :: Config
  client :: 's
  logger :: "string list"
  bufPool :: "bytes list"
  sent :: "cmd list"

definition Errorf :: "string \<Rightarrow> 's world \<Rightarrow> 's world" where
  "Errorf msg s = s\<lparr>logger := logger s @ [msg]\<rparr>"

text \<open>Calls of the client: the command runs on the connection and is recorded.\<close>

definition clientGet :: "'s redis \<Rightarrow> string \<Rightarrow> 's world \<Rightarrow> (error + bytes) \<times> 's world" where
  "clientGet c k s =
     (let (res, st) = cmdGet c k (client s)
      in (res, s\<lparr>client := st, sent := sent s @ [GET k]\<rparr>))"

definition clientSet ::
  "'s redis \<Rightarrow> string \<Rightarrow> bytes \<Rightarrow> duration \<Rightarrow> 's world \<Rightarrow> error option \<times> 's world" where
  "clientSet c k v d s =
     (let (res, st) = cmdSet c k v d (client s)
      in (res, s\<lparr>client := st, sent := sent s @ [SET k v d]\<rparr>))"

definition clientDel :: "'s redis \<Rightarrow> string \<Rightarrow> 's world \<Rightarrow> error option \<times> 's world" where
  "clientDel c k s =
     (let (res, st) = cmdDel c k (client s)
      in (res, s\<lparr>client := st, sent := sent s @ [DEL k]\<rparr>))"

definition clientExists ::
  "'s redis \<Rightarrow> string \<Rightarrow> 's world \<Rightarrow> (error + 64 word) \<times> 's world" where
  "clientExists c k s =
     (let (res, st) = cmdExists c k (client s)
      in (res, s\<lparr>client := st, sent := sent s @ [EXISTS k]\<rparr>))"

definition clientExpire ::
  "'s redis \<Rightarrow> string \<Rightarrow> duration \<Rightarrow> 's world \<Rightarrow> error option \<times> 's world" where
  "clientExpire c k d s =
     (let (res, st) = cmdExpire c k d (client s)
      in (res, s\<lparr>client := st, sent := sent s @ [EXPIRE k d]\<rparr>))"

definition clientFlushDB :: "'s redis \<Rightarrow> 's world \<Rightarrow> error option \<times> 's world" where
  "clientFlushDB c s =
     (let (res, st) = cmdFlushDB c (client s)
      in (res, s\<lparr>client := st, sent := sent s @ [FLUSHDB]\<rparr>))"

subsection \<open>Helper methods\<close>

text \<open>\<open>bufPool.Get()\<close>: a pooled buffer, or a new empty one from \<open>New\<close>. A \<open>sync.Pool\<close> may
  hand out any of its buffers; the model takes the one released last.\<close>

definition acquireBuffer :: "'s world \<Rightarrow> bytes \<times> 's world" where
  "acquireBuffer s =
     (case bufPool s of
        [] \<Rightarrow> ([], s)
      | b # bs \<Rightarrow> (b, s\<lparr>bufPool := bs\<rparr>))"

text \<open>\<open>bytes.Buffer.Reset\<close> empties a buffer.\<close>

definition Reset :: "bytes \<Rightarrow> bytes" where
  "Reset content = []"

text \<open>\<open>if b != nil { b.Reset(); bufPool.Put(b) }\<close>; the nil pointer is \<open>None\<close>.\<close>

definition releaseBuffer :: "bytes option \<Rightarrow> 's world \<Rightarrow> 's world" where
  "releaseBuffer b s =
     (case b of
        None \<Rightarrow> s
      | Some content \<Rightarrow> s\<lparr>bufPool := Reset content # bufPool s\<rparr>)"

text \<open>The pool holds no buffer with content.\<close>

definition poolClean :: "'s world \<Rightarrow> bool" where
  "poolClean s = list_all (\<lambda>b. b = []) (bufPool s)"

definition notacacheMiss :: "error option \<Rightarrow> error option" where
  "notacacheMiss err =
     (case err of
        None \<Rightarrow> err
      | Some m \<Rightarrow> if m = ''redis: nil'' then None else err)"

text \<open>The verb \<open>%v\<close> of the fmt package applied to an error.\<close>

definition verb_v :: "error option \<Rightarrow> string" where
  "verb_v err = (case err of None \<Rightarrow> ''<nil>'' | Some m \<Rightarrow> m)"

subsection \<open>Provider and redisCache\<close>

text \<open>\<open>Provider.Create\<close> (its error result is always nil). The config is the target of a
  non-nil pointer; on a nil pointer the method panics at \<open>p.cfg.Name\<close>.\<close>

definition Create :: "Config \<Rightarrow> 's world \<Rightarrow> redisCache \<times> 's world" where
  "Create c s =
     (let s1 = s\<lparr>cfg := c\<rparr>
      in (\<lparr>keyPrefix = Name (cfg s1) @ ''-''\<rparr>, s1))"

definition redisCache_Name :: "redisCache \<Rightarrow> 's world \<Rightarrow> string" where
  "redisCache_Name r s = Name (cfg s)"

definition Get ::
  "'s redis \<Rightarrow> 'v gob \<Rightarrow> redisCache \<Rightarrow> string \<Rightarrow> 's world \<Rightarrow> 'v iface \<times> 's world" where
  "Get c g r k0 s =
     (let k = keyPrefix r @ k0;
          (res, s1) = clientGet c k s
      in case res of
           Inl err \<Rightarrow>
             if notacacheMiss (Some err) \<noteq> None then
               (GoNil,
                Errorf (''aah/cache/'' @ redisCache_Name r s1 @ '': key(''
                          @ drop (length (keyPrefix r)) k @ '') '' @ err) s1)
             else (GoNil, s1)
         | Inr v \<Rightarrow>
             (case Decode g v of
                Inl err \<Rightarrow>
                  (GoNil, Errorf (''aah/cache/'' @ redisCache_Name r s1 @ '': '' @ err) s1)
              | Inr e \<Rightarrow>
                  if EvictionMode (cfg s1) = EvictionModeSlide then
                    (let (xerr, s2) = clientExpire c k (D e) s1
                     in case xerr of
                          Some m \<Rightarrow>
                            (V e,
                             Errorf (''aah/cache/'' @ redisCache_Name r s2 @ '': key(''
                                       @ drop (length (keyPrefix r)) k @ '') '' @ m) s2)
                        | None \<Rightarrow> (V e, s2))
                  else (V e, s1)))"

definition Put ::
  "'s redis \<Rightarrow> 'v gob \<Rightarrow> redisCache \<Rightarrow> string \<Rightarrow> 'v iface \<Rightarrow> duration \<Rightarrow> 's world
     \<Rightarrow> error option \<times> 's world" where
  "Put c g r k v d s =
     (let e = \<lparr>D = d, V = v\<rparr>;
          (buf, s1) = acquireBuffer s
      in case Encode g e of
           Inl err \<Rightarrow> (Some (''aah/cache/'' @ redisCache_Name r s1 @ '': '' @ err), s1)
         | Inr out \<Rightarrow>
             (let buf1 = buf @ out;
                  (res, s2) = clientSet c (keyPrefix r @ k) buf1 d s1;
                  s3 = releaseBuffer (Some buf1) s2
              in (res, s3)))"

definition GetOrPut ::
  "'s redis \<Rightarrow> 'v gob \<Rightarrow> redisCache \<Rightarrow> string \<Rightarrow> 'v iface \<Rightarrow> duration \<Rightarrow> 's world
     \<Rightarrow> ('v iface \<times> error option) \<times> 's world" where
  "GetOrPut c g r k v d s =
     (let (ev, s1) = Get c g r k s
      in if ev = GoNil then
           (let (err, s2) = Put c g r k v d s1
            in case err of
                 Some m \<Rightarrow> ((GoNil, err), s2)
               | None \<Rightarrow> ((v, None), s2))
         else ((ev, None), s1))"

definition Delete :: "'s redis \<Rightarrow> redisCache \<Rightarrow> string \<Rightarrow> 's world \<Rightarrow> error option \<times> 's world" where
  "Delete c r k s =
     (let (err, s1) = clientDel c (keyPrefix r @ k) s
      in if notacacheMiss err \<noteq> None then
           (Some (''aah/cache/'' @ redisCache_Name r s1 @ '': key('' @ k @ '') '' @ verb_v err), s1)
         else (None, s1))"

definition Exists :: "'s redis \<Rightarrow> redisCache \<Rightarrow> string \<Rightarrow> 's world \<Rightarrow> bool \<times> 's world" where
  "Exists c r k s =
     (let (res, s1) = clientExists c (keyPrefix r @ k) s
      in case res of
           Inl err \<Rightarrow>
             (False,
              Errorf (''aah/cache/'' @ redisCache_Name r s1 @ '': key('' @ k @ '') '' @ err) s1)
         | Inr result \<Rightarrow> (result = 1, s1))"

definition Flush :: "'s redis \<Rightarrow> redisCache \<Rightarrow> 's world \<Rightarrow> error option \<times> 's world" where
  "Flush c r s =
     (let (err, s1) = clientFlushDB c s
      in case err of
           Some m \<Rightarrow> (Some (''aah/cache/'' @ redisCache_Name r s1 @ '': '' @ m), s1)
         | None \<Rightarrow> (None, s1))"

subsection \<open>A store in memory and a two-byte codec\<close>

text \<open>An instance of the two parameters on which the theorems below are run: a client
  over a map from keys to payloads that answers every command with the error
  \<open>down\<close> when there is one, and a codec for entries whose value is one byte and whose
  ttl is a number of seconds below 256, written as one byte each.\<close>

record mem =
  db :: "string \<rightharpoonup> bytes"
  down :: "error option"

definition memRedis :: "mem redis" where
  "memRedis =
     \<lparr>cmdGet = (\<lambda>k m. case down m of
                 Some err \<Rightarrow> (Inl err, m)
               | None \<Rightarrow> (case db m k of
                            None \<Rightarrow> (Inl ''redis: nil'', m)
                          | Some v \<Rightarrow> (Inr v, m))),
      cmdSet = (\<lambda>k v d m. case down m of
                 Some err \<Rightarrow> (Some err, m)
               | None \<Rightarrow> (None, m\<lparr>db := (db m)(k \<mapsto> v)\<rparr>)),
      cmdDel = (\<lambda>k m. case down m of
                 Some err \<Rightarrow> (Some err, m)
               | None \<Rightarrow> (None, m\<lparr>db := (db m)(k := None)\<rparr>)),
      cmdExists = (\<lambda>k m. case down m of
                 Some err \<Rightarrow> (Inl err, m)
               | None \<Rightarrow> (Inr (if db m k = None then 0 else 1), m)),
      cmdExpire = (\<lambda>k d m. case down m of
                 Some err \<Rightarrow> (Some err, m)
               | None \<Rightarrow> (None, m)),
      cmdFlushDB = (\<lambda>m. case down m of
                 Some err \<Rightarrow> (Some err, m)
               | None \<Rightarrow> (None, m\<lparr>db := Map.empty\<rparr>))\<rparr>"

definition byteGob :: "(8 word) gob" where
  "byteGob =
     \<lparr>registry = [''uint8''],
      marshal = (\<lambda>e. case V e of
                  GoNil \<Rightarrow> Inr [ucast (D e div 1000000000)]
                | Val t x \<Rightarrow> Inr [ucast (D e div 1000000000), x]),
      Decode = (\<lambda>v. case v of
                  [d] \<Rightarrow> Inr \<lparr>D = ucast d * 1000000000, V = GoNil\<rparr>
                | [d, x] \<Rightarrow> Inr \<lparr>D = ucast d * 1000000000, V = Val ''uint8'' x\<rparr>
                | _ \<Rightarrow> Inl ''unexpected EOF'')\<rparr>"

text \<open>A codec as gob is for a registered struct type with an unexported field: only the
  exported part of the value, here the low four bits of the byte, is transmitted.\<close>

definition lossyGob :: "(8 word) gob" where
  "lossyGob =
     \<lparr>registry = [''redis.withPriv''],
      marshal = (\<lambda>e. case V e of
                  GoNil \<Rightarrow> Inr [ucast (D e div 1000000000)]
                | Val t x \<Rightarrow> Inr [ucast (D e div 1000000000), take_bit 4 x]),
      Decode = (\<lambda>v. case v of
                  [d] \<Rightarrow> Inr \<lparr>D = ucast d * 1000000000, V = GoNil\<rparr>
                | [d, x] \<Rightarrow> Inr \<lparr>D = ucast d * 1000000000, V = Val ''redis.withPriv'' x\<rparr>
                | _ \<Rightarrow> Inl ''unexpected EOF'')\<rparr>"

definition world0 :: "Config \<Rightarrow> mem world" where
  "world0 c =
     \<lparr>cfg = c, client = \<lparr>db = Map.empty, down = None\<rparr>, logger = [], bufPool = [], sent = []\<rparr>"

definition slideCfg :: "string \<Rightarrow> Config" where
  "slideCfg n = \<lparr>Name = n, ProviderName = ''redis1'', EvictionMode = EvictionModeSlide\<rparr>"

definition fixedCfg :: "string \<Rightarrow> Config" where
  "fixedCfg n = \<lparr>Name = n, ProviderName = ''redis1'', EvictionMode = EvictionModeFixed\<rparr>"

subsection \<open>Unfolding\<close>

lemmas client_defs = clientGet_def clientSet_def clientDel_def clientExists_def
  clientExpire_def clientFlushDB_def

lemmas inst_defs = memRedis_def byteGob_def lossyGob_def world0_def slideCfg_def fixedCfg_def
lemmas op_defs = Get_def Put_def GetOrPut_def Delete_def Exists_def Flush_def Create_def
  client_defs acquireBuffer_def releaseBuffer_def Reset_def Encode_def Errorf_def
  notacacheMiss_def verb_v_def redisCache_Name_def poolClean_def Let_def

subsection \<open>What each method returns, sends and leaves behind\<close>


lemma Get_value:
  "fst (Get c g r k s) =
     (case fst (cmdGet c (keyPrefix r @ k) (client s)) of
        Inl err \<Rightarrow> GoNil
      | Inr payload \<Rightarrow> (case Decode g payload of Inl err \<Rightarrow> GoNil | Inr e \<Rightarrow> V e))"
  by (simp add: Get_def client_defs Let_def split: prod.splits sum.splits option.splits)

lemma Get_sent:
  "sent (snd (Get c g r k s)) =
     sent s @ GET (keyPrefix r @ k) #
       (case fst (cmdGet c (keyPrefix r @ k) (client s)) of
          Inl err \<Rightarrow> []
        | Inr payload \<Rightarrow>
            (case Decode g payload of
               Inl err \<Rightarrow> []
             | Inr e \<Rightarrow>
                 if EvictionMode (cfg s) = EvictionModeSlide
                 then [EXPIRE (keyPrefix r @ k) (D e)] else []))"
  by (simp add: Get_def client_defs Errorf_def Let_def split: prod.splits sum.splits option.splits)

lemma Get_frame:
  "bufPool (snd (Get c g r k s)) = bufPool s \<and> cfg (snd (Get c g r k s)) = cfg s"
  by (simp add: Get_def client_defs Errorf_def Let_def split: prod.splits sum.splits option.splits)

lemma Put_bufPool:
  "bufPool (snd (Put c g r k v d s)) =
     (case Encode g \<lparr>D = d, V = v\<rparr> of
        Inl err \<Rightarrow> bufPool (snd (acquireBuffer s))
      | Inr out \<Rightarrow> [] # bufPool (snd (acquireBuffer s)))"
  by (simp add: Put_def client_defs acquireBuffer_def releaseBuffer_def Reset_def Let_def
      split: prod.splits sum.splits option.splits list.splits)

lemma acquireBuffer_clean:
  "poolClean s \<Longrightarrow> fst (acquireBuffer s) = [] \<and> poolClean (snd (acquireBuffer s))"
  by (auto simp: poolClean_def acquireBuffer_def split: list.splits)

lemma Put_poolClean: "poolClean s \<Longrightarrow> poolClean (snd (Put c g r k v d s))"
  using acquireBuffer_clean [of s]
  by (simp add: poolClean_def Put_bufPool split: sum.splits)

lemma Put_failed_encode:
  "Encode g \<lparr>D = d, V = v\<rparr> = Inl err \<Longrightarrow>
     fst (Put c g r k v d s) = Some (''aah/cache/'' @ Name (cfg s) @ '': '' @ err)
     \<and> sent (snd (Put c g r k v d s)) = sent s
     \<and> client (snd (Put c g r k v d s)) = client s"
  by (simp add: Put_def acquireBuffer_def redisCache_Name_def Let_def split: prod.splits list.splits)

lemma Put_encoded:
  "Encode g \<lparr>D = d, V = v\<rparr> = Inr out \<Longrightarrow>
     fst (Put c g r k v d s) =
       fst (cmdSet c (keyPrefix r @ k) (fst (acquireBuffer s) @ out) d (client s))
     \<and> client (snd (Put c g r k v d s)) =
       snd (cmdSet c (keyPrefix r @ k) (fst (acquireBuffer s) @ out) d (client s))
     \<and> sent (snd (Put c g r k v d s)) =
       sent s @ [SET (keyPrefix r @ k) (fst (acquireBuffer s) @ out) d]
     \<and> cfg (snd (Put c g r k v d s)) = cfg s"
  by (simp add: Put_def client_defs acquireBuffer_def releaseBuffer_def Let_def
      split: prod.splits list.splits)

lemma Encode_unregistered:
  "t \<notin> set (registry g) \<Longrightarrow>
     Encode g \<lparr>D = d, V = Val t x\<rparr> = Inl (''gob: type not registered for interface: '' @ t)"
  by (simp add: Encode_def)

lemma Put_client:
  "client (snd (Put c g r k v d s)) =
     (case Encode g \<lparr>D = d, V = v\<rparr> of
        Inl err \<Rightarrow> client s
      | Inr out \<Rightarrow> snd (cmdSet c (keyPrefix r @ k) (fst (acquireBuffer s) @ out) d (client s)))"
  by (simp add: Put_def client_defs acquireBuffer_def releaseBuffer_def Let_def case_prod_beta
      split: sum.splits list.splits)

lemma acquireBuffer_cfg:
  "fst (acquireBuffer (s\<lparr>cfg := cf\<rparr>)) = fst (acquireBuffer s)"
  by (simp add: acquireBuffer_def split: list.splits)

lemma Create_result:
  "fst (Create cf s) = \<lparr>keyPrefix = Name cf @ ''-''\<rparr> \<and> snd (Create cf s) = s\<lparr>cfg := cf\<rparr>"
  by (simp add: Create_def Let_def)

lemma append_eq_prefix:
  "(\<exists>k1 k2. p @ k1 = q @ k2) \<longleftrightarrow> prefix p q \<or> prefix q p"
proof
  assume "\<exists>k1 k2. p @ k1 = q @ k2"
  then obtain k1 k2 where "p @ k1 = q @ k2" by blast
  then show "prefix p q \<or> prefix q p"
    by (auto simp: append_eq_append_conv2 prefix_def)
next
  assume "prefix p q \<or> prefix q p"
  then show "\<exists>k1 k2. p @ k1 = q @ k2"
  proof
    assume "prefix p q"
    then obtain z where "q = p @ z" by (auto simp: prefix_def)
    then have "p @ z = q @ []" by simp
    then show ?thesis by blast
  next
    assume "prefix q p"
    then obtain z where "p = q @ z" by (auto simp: prefix_def)
    then have "p @ [] = q @ z" by simp
    then show ?thesis by blast
  qed
qed

lemma GetOrPut_state:
  "snd (GetOrPut c g r k v d s) =
     (if fst (Get c g r k s) = GoNil then snd (Put c g r k v d (snd (Get c g r k s)))
      else snd (Get c g r k s))"
  by (simp add: GetOrPut_def Let_def case_prod_beta split: option.splits)

lemma GetOrPut_result:
  "fst (GetOrPut c g r k v d s) =
     (if fst (Get c g r k s) = GoNil then
        (case fst (Put c g r k v d (snd (Get c g r k s))) of
           None \<Rightarrow> (v, None)
         | Some m \<Rightarrow> (GoNil, Some m))
      else (fst (Get c g r k s), None))"
  by (simp add: GetOrPut_def Let_def case_prod_beta split: option.splits)

lemma poolClean_cong: "bufPool s = bufPool s' \<Longrightarrow> poolClean s = poolClean s'"
  by (simp add: poolClean_def)

lemma Get_poolClean: "poolClean (snd (Get c g r k s)) = poolClean s"
  by (rule poolClean_cong) (simp add: Get_frame)

lemma GetOrPut_poolClean: "poolClean s \<Longrightarrow> poolClean (snd (GetOrPut c g r k v d s))"
proof -
  assume p: "poolClean s"
  then have "poolClean (snd (Get c g r k s))" by (simp add: Get_poolClean)
  then have "poolClean (snd (Put c g r k v d (snd (Get c g r k s))))" by (rule Put_poolClean)
  moreover from p have "poolClean (snd (Get c g r k s))" by (simp add: Get_poolClean)
  ultimately show ?thesis
    by (simp add: GetOrPut_state)
qed

lemma others_bufPool:
  "bufPool (snd (Delete c r k s)) = bufPool s"
  "bufPool (snd (Exists c r k s)) = bufPool s"
  "bufPool (snd (Flush c r s)) = bufPool s"
  "bufPool (snd (Create cf s)) = bufPool s"
  by (simp_all add: Delete_def Exists_def Flush_def Create_def client_defs Errorf_def Let_def
      case_prod_beta split: option.splits sum.splits)

lemma Delete_sent: "sent (snd (Delete c r k s)) = sent s @ [DEL (keyPrefix r @ k)]"
  by (simp add: Delete_def client_defs Let_def case_prod_beta)

lemma Exists_value:
  "fst (Exists c r k s) =
     (case fst (cmdExists c (keyPrefix r @ k) (client s)) of
        Inl err \<Rightarrow> False
      | Inr result \<Rightarrow> result = 1)"
  by (simp add: Exists_def client_defs Let_def case_prod_beta split: sum.splits)

lemma acquireBuffer_Get:
  "fst (acquireBuffer (snd (Get c g r k s))) = fst (acquireBuffer s)"
  by (simp add: acquireBuffer_def Get_frame split: list.splits)

lemma Put_succeeds_encoded:
  "fst (Put c g r k v d s) = None \<Longrightarrow> \<exists>out. Encode g \<lparr>D = d, V = v\<rparr> = Inr out"
  using Put_failed_encode [of g d v _ c r k s]
  by (cases "Encode g \<lparr>D = d, V = v\<rparr>") auto

lemma Encode_registered:
  "Encode g \<lparr>D = d, V = v\<rparr> = Inr out \<Longrightarrow>
     v = GoNil \<or> (\<exists>t x. v = Val t x \<and> t \<in> set (registry g))"
  by (cases v) (auto simp: Encode_def split: if_splits)

lemma Put_leaves_other_keys:
  assumes ne: "keyPrefix rA @ k1 \<noteq> keyPrefix rB @ k2"
    and frame: "\<forall>K K' p st. K \<noteq> K' \<longrightarrow>
                fst (cmdGet c K' (snd (cmdSet c K p d st))) = fst (cmdGet c K' st)"
  shows "fst (Get c g rB k2 (snd (Put c g rA k1 v d w))) = fst (Get c g rB k2 w)"
proof -
  have "fst (cmdGet c (keyPrefix rB @ k2) (client (snd (Put c g rA k1 v d w))))
          = fst (cmdGet c (keyPrefix rB @ k2) (client w))"
  proof (cases "Encode g \<lparr>D = d, V = v\<rparr>")
    case (Inl err)
    then show ?thesis by (simp add: Put_client)
  next
    case (Inr out)
    with frame ne show ?thesis by (simp add: Put_client)
  qed
  then show ?thesis by (simp add: Get_value)
qed


section \<open>The claims\<close>

text \<open>
  Claim C1 says that a successful \<open>Put(k, v, d)\<close> followed by \<open>Get(k)\<close> returns \<open>v\<close> as soon
  as the type of \<open>v\<close> is registered. Registration lets the encoder accept the value; it
  does not make the decoder give the value back. With a codec that, as gob does
  for the unexported fields of a struct, transmits only part of a value of a
  registered type, \<open>Put\<close> succeeds and \<open>Get\<close> returns another value.
\<close>

theorem Put_Get_roundtrip_counterexample:
  "''redis.withPriv'' \<in> set (registry lossyGob)
   \<and> poolClean (world0 (fixedCfg ''a''))
   \<and> fst (Put memRedis lossyGob \<lparr>keyPrefix = ''a-''\<rparr> ''k'' (Val ''redis.withPriv'' 21) 3000000000
        (world0 (fixedCfg ''a''))) = None
   \<and> fst (Get memRedis lossyGob \<lparr>keyPrefix = ''a-''\<rparr> ''k''
        (snd (Put memRedis lossyGob \<lparr>keyPrefix = ''a-''\<rparr> ''k'' (Val ''redis.withPriv'' 21) 3000000000
               (world0 (fixedCfg ''a''))))) = Val ''redis.withPriv'' 5
   \<and> fst (Get memRedis lossyGob \<lparr>keyPrefix = ''a-''\<rparr> ''k''
        (snd (Put memRedis lossyGob \<lparr>keyPrefix = ''a-''\<rparr> ''k'' (Val ''redis.withPriv'' 21) 3000000000
               (world0 (fixedCfg ''a''))))) \<noteq> Val ''redis.withPriv'' 21"
  by (simp add: op_defs inst_defs)

text \<open>
  Claim C1, amended. After a successful \<open>Put(k, v, d)\<close> on a pool of empty buffers, and on
  a store that answers a \<open>GET\<close> following a successful \<open>SET\<close> of the same key with the
  payload that was set (nothing deleted, flushed or expired in between), the entry
  was encoded, and \<open>Get(k)\<close> returns the \<open>V\<close> of what the decoder makes of that encoding
  (nil if it does not decode). So \<open>Get(k)\<close> returns \<open>v\<close> whenever the decoder restores \<open>V\<close> from
  the encoding of the entry. The type of \<open>v\<close> is then registered, or \<open>v\<close> is nil.
\<close>

theorem Put_Get_roundtrip:
  assumes pool: "poolClean s"
    and put: "fst (Put c g r k v d s) = None"
    and store: "\<forall>p st. cmdSet c (keyPrefix r @ k) p d (client s) = (None, st)
                  \<longrightarrow> fst (cmdGet c (keyPrefix r @ k) st) = Inr p"
  shows "(\<exists>out. Encode g \<lparr>D = d, V = v\<rparr> = Inr out
            \<and> fst (Get c g r k (snd (Put c g r k v d s)))
                = (case Decode g out of Inl err \<Rightarrow> GoNil | Inr e \<Rightarrow> V e))
     \<and> ((\<forall>out. Encode g \<lparr>D = d, V = v\<rparr> = Inr out
             \<longrightarrow> (\<exists>e. Decode g out = Inr e \<and> V e = v))
          \<longrightarrow> fst (Get c g r k (snd (Put c g r k v d s))) = v)
     \<and> (v = GoNil \<or> (\<exists>t x. v = Val t x \<and> t \<in> set (registry g)))"
proof -
  from Put_succeeds_encoded [OF put] obtain out
    where enc: "Encode g \<lparr>D = d, V = v\<rparr> = Inr out" by blast
  let ?K = "keyPrefix r @ k"
  have buf: "fst (acquireBuffer s) = []"
    using acquireBuffer_clean [OF pool] by simp
  from Put_encoded [OF enc, of c r k s] buf put
  have set_ok: "fst (cmdSet c ?K out d (client s)) = None"
    and cl: "client (snd (Put c g r k v d s)) = snd (cmdSet c ?K out d (client s))"
    by simp_all
  from set_ok have "cmdSet c ?K out d (client s) = (None, snd (cmdSet c ?K out d (client s)))"
    by (simp add: prod_eq_iff)
  with store have "fst (cmdGet c ?K (snd (cmdSet c ?K out d (client s)))) = Inr out"
    by blast
  with cl have "fst (cmdGet c ?K (client (snd (Put c g r k v d s)))) = Inr out"
    by simp
  then have get: "fst (Get c g r k (snd (Put c g r k v d s)))
      = (case Decode g out of Inl err \<Rightarrow> GoNil | Inr e \<Rightarrow> V e)"
    by (simp add: Get_value)
  have restored: "fst (Get c g r k (snd (Put c g r k v d s))) = v"
    if inv: "\<forall>out. Encode g \<lparr>D = d, V = v\<rparr> = Inr out
               \<longrightarrow> (\<exists>e. Decode g out = Inr e \<and> V e = v)"
  proof -
    from inv enc obtain e where "Decode g out = Inr e" and "V e = v" by blast
    with get show ?thesis by simp
  qed
  from enc get restored Encode_registered [OF enc] show ?thesis
    by blast
qed


theorem Put_Get_roundtrip_witness:
  "poolClean (world0 (slideCfg ''a''))
   \<and> fst (Put memRedis byteGob \<lparr>keyPrefix = ''a-''\<rparr> ''k'' (Val ''uint8'' 7) 3000000000 (world0 (slideCfg ''a''))) = None
   \<and> fst (Get memRedis byteGob \<lparr>keyPrefix = ''a-''\<rparr> ''k''
        (snd (Put memRedis byteGob \<lparr>keyPrefix = ''a-''\<rparr> ''k'' (Val ''uint8'' 7) 3000000000 (world0 (slideCfg ''a''))))) = Val ''uint8'' 7"
proof -
  let ?s = "world0 (slideCfg ''a'')"
  let ?r = "\<lparr>keyPrefix = ''a-''\<rparr>"
  have h1: "poolClean ?s"
    by (simp add: poolClean_def world0_def)
  have h2: "fst (Put memRedis byteGob ?r ''k'' (Val ''uint8'' 7) 3000000000 ?s) = None"
    by (simp add: op_defs inst_defs)
  have h3: "\<forall>out. Encode byteGob \<lparr>D = 3000000000, V = Val ''uint8'' 7\<rparr> = Inr out
              \<longrightarrow> (\<exists>e. Decode byteGob out = Inr e \<and> V e = Val ''uint8'' 7)"
    by (auto simp: Encode_def byteGob_def)
  have h4: "\<forall>p st. cmdSet memRedis (keyPrefix ?r @ ''k'') p 3000000000 (client ?s) = (None, st)
              \<longrightarrow> fst (cmdGet memRedis (keyPrefix ?r @ ''k'') st) = Inr p"
    by (auto simp: memRedis_def world0_def)
  from Put_Get_roundtrip [OF h1 h2 h4] h3
  have "fst (Get memRedis byteGob ?r ''k''
          (snd (Put memRedis byteGob ?r ''k'' (Val ''uint8'' 7) 3000000000 ?s))) = Val ''uint8'' 7"
    by blast
  with h1 h2 show ?thesis
    by simp
qed


text \<open>
  Claim C2. \<open>Get\<close> has no error result, and its value is nil whenever the store answers
  the \<open>GET\<close> with an error (the "redis: nil" of a missing key or any other) and whenever
  the payload does not decode; in the one remaining case, a payload that was read and
  decoded, it is the \<open>V\<close> of the decoded entry.
\<close>

theorem Get_absent_unless_decoded:
  "fst (Get c g r k s) =
     (case fst (cmdGet c (keyPrefix r @ k) (client s)) of
        Inl err \<Rightarrow> GoNil
      | Inr payload \<Rightarrow> (case Decode g payload of Inl err \<Rightarrow> GoNil | Inr e \<Rightarrow> V e))"
  by (rule Get_value)

text \<open>
  Claim C3. \<open>Put\<close> of a value whose concrete type is not in the registry returns the
  encoder's error, wrapped, and sends nothing to the store; when the entry is encoded,
  \<open>Put\<close> returns exactly the error of the \<open>SET\<close> it sends (nil when the write succeeded).
\<close>

theorem Put_errors:
  "(v = Val t x \<and> t \<notin> set (registry g) \<longrightarrow>
      fst (Put c g r k v d s) =
        Some (''aah/cache/'' @ Name (cfg s) @ '': gob: type not registered for interface: '' @ t)
      \<and> sent (snd (Put c g r k v d s)) = sent s
      \<and> client (snd (Put c g r k v d s)) = client s)
   \<and> (Encode g \<lparr>D = d, V = v\<rparr> = Inr out \<longrightarrow>
      fst (Put c g r k v d s) =
        fst (cmdSet c (keyPrefix r @ k) (fst (acquireBuffer s) @ out) d (client s))
      \<and> sent (snd (Put c g r k v d s)) =
        sent s @ [SET (keyPrefix r @ k) (fst (acquireBuffer s) @ out) d])"
proof (intro conjI impI)
  assume u: "v = Val t x \<and> t \<notin> set (registry g)"
  then have "Encode g \<lparr>D = d, V = v\<rparr> = Inl (''gob: type not registered for interface: '' @ t)"
    by (simp add: Encode_unregistered)
  from Put_failed_encode [OF this, of c r k s]
  show "fst (Put c g r k v d s) =
        Some (''aah/cache/'' @ Name (cfg s) @ '': gob: type not registered for interface: '' @ t)"
    and "sent (snd (Put c g r k v d s)) = sent s"
    and "client (snd (Put c g r k v d s)) = client s"
    by simp_all
next
  assume e: "Encode g \<lparr>D = d, V = v\<rparr> = Inr out"
  from Put_encoded [OF e, of c r k s]
  show "fst (Put c g r k v d s) =
        fst (cmdSet c (keyPrefix r @ k) (fst (acquireBuffer s) @ out) d (client s))"
    and "sent (snd (Put c g r k v d s)) =
        sent s @ [SET (keyPrefix r @ k) (fst (acquireBuffer s) @ out) d]"
    by simp_all
qed

theorem Put_errors_witness:
  "fst (Put memRedis byteGob \<lparr>keyPrefix = ''a-''\<rparr> ''k'' (Val ''redis.sample'' 7) 3000000000 (world0 (slideCfg ''a'')))
     = Some ''aah/cache/a: gob: type not registered for interface: redis.sample''
   \<and> sent (snd (Put memRedis byteGob \<lparr>keyPrefix = ''a-''\<rparr> ''k'' (Val ''redis.sample'' 7) 3000000000 (world0 (slideCfg ''a'')))) = []
   \<and> fst (Put memRedis byteGob \<lparr>keyPrefix = ''a-''\<rparr> ''k'' (Val ''uint8'' 7) 3000000000
        ((world0 (slideCfg ''a''))\<lparr>client := \<lparr>db = Map.empty, down = Some ''i/o timeout''\<rparr>\<rparr>))
     = Some ''i/o timeout''"
proof -
  let ?s = "world0 (slideCfg ''a'')"
  let ?t = "?s\<lparr>client := \<lparr>db = Map.empty, down = Some ''i/o timeout''\<rparr>\<rparr>"
  let ?r = "\<lparr>keyPrefix = ''a-''\<rparr>"
  have u: "Val ''redis.sample'' (7::8 word) = Val ''redis.sample'' 7 \<and> ''redis.sample'' \<notin> set (registry byteGob)"
    by (simp add: byteGob_def)
  have e: "Encode byteGob \<lparr>D = 3000000000, V = Val ''uint8'' 7\<rparr> = Inr [3, 7]"
    by (simp add: Encode_def byteGob_def)
  from Put_errors [where v = "Val ''redis.sample'' 7" and t = "''redis.sample''" and x = 7
      and g = byteGob and c = memRedis and r = ?r and k = "''k''" and d = 3000000000 and s = ?s] u
  have a: "fst (Put memRedis byteGob ?r ''k'' (Val ''redis.sample'' 7) 3000000000 ?s)
             = Some (''aah/cache/'' @ Name (cfg ?s) @ '': gob: type not registered for interface: '' @ ''redis.sample'')
           \<and> sent (snd (Put memRedis byteGob ?r ''k'' (Val ''redis.sample'' 7) 3000000000 ?s)) = sent ?s"
    by blast
  from Put_errors [where v = "Val ''uint8'' 7" and g = byteGob and c = memRedis and r = ?r
      and k = "''k''" and d = 3000000000 and s = ?t and out = "[3, 7]"] e
  have b: "fst (Put memRedis byteGob ?r ''k'' (Val ''uint8'' 7) 3000000000 ?t)
             = fst (cmdSet memRedis (keyPrefix ?r @ ''k'') (fst (acquireBuffer ?t) @ [3, 7]) 3000000000 (client ?t))"
    by blast
  from a b show ?thesis
    by (simp add: inst_defs acquireBuffer_def)
qed

text \<open>
  Claim C4. \<open>GetOrPut\<close> runs \<open>Get\<close> first. When \<open>Get\<close> yields nil it runs \<open>Put\<close> with the
  supplied value and ttl, and returns \<open>(v, nil)\<close> if \<open>Put\<close> succeeds and \<open>(nil, err)\<close> with
  the error of \<open>Put\<close> otherwise. When \<open>Get\<close> yields a value it returns that value with a nil
  error, and the state is the one \<open>Get\<close> left: no \<open>Put\<close> is run. The only error that can come
  out is therefore the one of \<open>Put\<close>.
\<close>

theorem GetOrPut_branches:
  "(fst (Get c g r k s) = GoNil \<longrightarrow>
      GetOrPut c g r k v d s =
        ((case fst (Put c g r k v d (snd (Get c g r k s))) of
            None \<Rightarrow> (v, None)
          | Some m \<Rightarrow> (GoNil, Some m)),
         snd (Put c g r k v d (snd (Get c g r k s)))))
   \<and> (fst (Get c g r k s) \<noteq> GoNil \<longrightarrow>
      GetOrPut c g r k v d s = ((fst (Get c g r k s), None), snd (Get c g r k s)))"
  by (simp add: GetOrPut_def Let_def split: prod.splits option.splits)

theorem GetOrPut_branches_witness:
  "GetOrPut memRedis byteGob \<lparr>keyPrefix = ''a-''\<rparr> ''k'' (Val ''uint8'' 7) 3000000000 (world0 (fixedCfg ''a''))
     = ((Val ''uint8'' 7, None),
        snd (Put memRedis byteGob \<lparr>keyPrefix = ''a-''\<rparr> ''k'' (Val ''uint8'' 7) 3000000000
              (snd (Get memRedis byteGob \<lparr>keyPrefix = ''a-''\<rparr> ''k'' (world0 (fixedCfg ''a''))))))
   \<and> fst (GetOrPut memRedis byteGob \<lparr>keyPrefix = ''a-''\<rparr> ''k'' (Val ''uint8'' 9) 3000000000
        (snd (Put memRedis byteGob \<lparr>keyPrefix = ''a-''\<rparr> ''k'' (Val ''uint8'' 7) 3000000000 (world0 (fixedCfg ''a'')))))
     = (Val ''uint8'' 7, None)"
proof -
  let ?s = "world0 (fixedCfg ''a'')"
  let ?r = "\<lparr>keyPrefix = ''a-''\<rparr>"
  let ?s1 = "snd (Put memRedis byteGob ?r ''k'' (Val ''uint8'' 7) 3000000000 ?s)"
  have miss: "fst (Get memRedis byteGob ?r ''k'' ?s) = GoNil"
    by (simp add: op_defs inst_defs)
  have put: "fst (Put memRedis byteGob ?r ''k'' (Val ''uint8'' 7) 3000000000 (snd (Get memRedis byteGob ?r ''k'' ?s))) = None"
    by (simp add: op_defs inst_defs)
  have hit: "fst (Get memRedis byteGob ?r ''k'' ?s1) = Val ''uint8'' 7"
    by (simp add: op_defs inst_defs)
  from GetOrPut_branches [where c = memRedis and g = byteGob and r = ?r and k = "''k''"
      and s = ?s and v = "Val ''uint8'' 7" and d = 3000000000] miss put
  have a: "GetOrPut memRedis byteGob ?r ''k'' (Val ''uint8'' 7) 3000000000 ?s
     = ((Val ''uint8'' 7, None),
        snd (Put memRedis byteGob ?r ''k'' (Val ''uint8'' 7) 3000000000 (snd (Get memRedis byteGob ?r ''k'' ?s))))"
    by simp
  from GetOrPut_branches [where c = memRedis and g = byteGob and r = ?r and k = "''k''"
      and s = ?s1 and v = "Val ''uint8'' 9" and d = 3000000000] hit
  have b: "fst (GetOrPut memRedis byteGob ?r ''k'' (Val ''uint8'' 9) 3000000000 ?s1) = (Val ''uint8'' 7, None)"
    by simp
  from a b show ?thesis by simp
qed

text \<open>
  Claim C5 says that caches with different names never share a physical key. The
  prefix is the name followed by "-", and neither names nor keys are kept from
  containing "-": the cache "a" with key "b-c" and the cache "a-b" with key "c"
  both address "a-b-c", and a \<open>Get\<close> through the second returns what a \<open>Put\<close> through
  the first has stored. The two logical keys differ.
\<close>

theorem namespace_isolation_counterexample:
  "Name (fixedCfg ''a'') \<noteq> Name (fixedCfg ''a-b'')
   \<and> keyPrefix (fst (Create (fixedCfg ''a'') (world0 (fixedCfg ''a'')))) @ ''b-c''
       = keyPrefix (fst (Create (fixedCfg ''a-b'') (world0 (fixedCfg ''a'')))) @ ''c''
   \<and> fst (Get memRedis byteGob (fst (Create (fixedCfg ''a-b'') (world0 (fixedCfg ''a'')))) ''c''
        (snd (Put memRedis byteGob (fst (Create (fixedCfg ''a'') (world0 (fixedCfg ''a'')))) ''b-c''
               (Val ''uint8'' 7) 3000000000 (world0 (fixedCfg ''a'')))))
       = Val ''uint8'' 7"
  by (simp add: op_defs inst_defs)

text \<open>
  Claim C5, amended. Two caches with different names never share a physical key under
  the same logical key, so that, on a store on which a \<open>SET\<close> changes the answer to a
  \<open>GET\<close> of no other key, a \<open>Put\<close> through one cache leaves what \<open>Get\<close> returns through the
  other under that logical key as it was. Under different logical keys they share no
  physical key exactly when neither name, followed by "-", is a prefix of the other
  name; and whenever two physical keys differ, the \<open>Put\<close> on the one leaves the \<open>Get\<close> on
  the other as it was.
\<close>

theorem namespace_isolation:
  assumes names: "Name cA \<noteq> Name cB"
  shows "(\<forall>k. keyPrefix (fst (Create cA s)) @ k \<noteq> keyPrefix (fst (Create cB s')) @ k)
     \<and> ((\<forall>K K' p st. K \<noteq> K' \<longrightarrow>
            fst (cmdGet c K' (snd (cmdSet c K p d st))) = fst (cmdGet c K' st))
          \<longrightarrow> fst (Get c g (fst (Create cB s')) k (snd (Put c g (fst (Create cA s)) k v d w)))
                = fst (Get c g (fst (Create cB s')) k w))
     \<and> ((\<forall>k1 k2. keyPrefix (fst (Create cA s)) @ k1 \<noteq> keyPrefix (fst (Create cB s')) @ k2)
            \<longleftrightarrow> \<not> prefix (Name cA @ ''-'') (Name cB) \<and> \<not> prefix (Name cB @ ''-'') (Name cA))
     \<and> (keyPrefix (fst (Create cA s)) @ k1 \<noteq> keyPrefix (fst (Create cB s')) @ k2
          \<and> (\<forall>K K' p st. K \<noteq> K' \<longrightarrow>
                fst (cmdGet c K' (snd (cmdSet c K p d st))) = fst (cmdGet c K' st))
          \<longrightarrow> fst (Get c g (fst (Create cB s')) k2 (snd (Put c g (fst (Create cA s)) k1 v d w)))
                = fst (Get c g (fst (Create cB s')) k2 w))"
proof -
  let ?p = "Name cA @ ''-''" and ?q = "Name cB @ ''-''"
  let ?rA = "\<lparr>keyPrefix = ?p\<rparr>" and ?rB = "\<lparr>keyPrefix = ?q\<rparr>"
  have same: "?p @ k \<noteq> ?q @ k" for k
    using names by simp
  have "(\<forall>k1 k2. ?p @ k1 \<noteq> ?q @ k2) \<longleftrightarrow> \<not> (\<exists>k1 k2. ?p @ k1 = ?q @ k2)"
    by blast
  also have "\<dots> \<longleftrightarrow> \<not> (prefix ?p ?q \<or> prefix ?q ?p)"
    by (simp only: append_eq_prefix)
  also have "\<dots> \<longleftrightarrow> \<not> prefix ?p (Name cB) \<and> \<not> prefix ?q (Name cA)"
    using names by simp
  finally have keys: "(\<forall>k1 k2. ?p @ k1 \<noteq> ?q @ k2)
      \<longleftrightarrow> \<not> prefix ?p (Name cB) \<and> \<not> prefix ?q (Name cA)" .
  have reads: "fst (Get c g ?rB kb (snd (Put c g ?rA ka v d w))) = fst (Get c g ?rB kb w)"
    if "?p @ ka \<noteq> ?q @ kb"
      and "\<forall>K K' p st. K \<noteq> K' \<longrightarrow>
             fst (cmdGet c K' (snd (cmdSet c K p d st))) = fst (cmdGet c K' st)"
    for ka kb
    using that Put_leaves_other_keys [of ?rA ka ?rB kb c d g v w] by simp
  have a: "\<forall>k. keyPrefix ?rA @ k \<noteq> keyPrefix ?rB @ k"
    using same by simp
  have b: "(\<forall>K K' p st. K \<noteq> K' \<longrightarrow>
            fst (cmdGet c K' (snd (cmdSet c K p d st))) = fst (cmdGet c K' st))
          \<longrightarrow> fst (Get c g ?rB k (snd (Put c g ?rA k v d w))) = fst (Get c g ?rB k w)"
    using reads [of k k] same [of k] by blast
  have c: "(\<forall>k1 k2. keyPrefix ?rA @ k1 \<noteq> keyPrefix ?rB @ k2)
            \<longleftrightarrow> \<not> prefix ?p (Name cB) \<and> \<not> prefix ?q (Name cA)"
    using keys by simp
  have d: "keyPrefix ?rA @ k1 \<noteq> keyPrefix ?rB @ k2
          \<and> (\<forall>K K' p st. K \<noteq> K' \<longrightarrow>
                fst (cmdGet c K' (snd (cmdSet c K p d st))) = fst (cmdGet c K' st))
          \<longrightarrow> fst (Get c g ?rB k2 (snd (Put c g ?rA k1 v d w))) = fst (Get c g ?rB k2 w)"
    using reads [of k1 k2] by simp
  from a b c d show ?thesis
    by (simp only: Create_result) blast
qed

theorem namespace_isolation_witness:
  "Name (fixedCfg ''a'') \<noteq> Name (fixedCfg ''a-b'')
   \<and> keyPrefix (fst (Create (fixedCfg ''a'') (world0 (fixedCfg ''a'')))) @ ''k''
       \<noteq> keyPrefix (fst (Create (fixedCfg ''a-b'') (world0 (fixedCfg ''a'')))) @ ''k''
   \<and> fst (Get memRedis byteGob (fst (Create (fixedCfg ''a-b'') (world0 (fixedCfg ''a'')))) ''k''
        (snd (Put memRedis byteGob (fst (Create (fixedCfg ''a'') (world0 (fixedCfg ''a'')))) ''k''
               (Val ''uint8'' 7) 3000000000 (world0 (fixedCfg ''a'')))))
       = GoNil
   \<and> fst (Get memRedis byteGob (fst (Create (fixedCfg ''orders'') (world0 (fixedCfg ''a'')))) ''k2''
        (snd (Put memRedis byteGob (fst (Create (fixedCfg ''users'') (world0 (fixedCfg ''a'')))) ''k1''
               (Val ''uint8'' 7) 3000000000 (world0 (fixedCfg ''a'')))))
       = GoNil"
proof -
  let ?w = "world0 (fixedCfg ''a'')"
  have n: "Name (fixedCfg ''a'') \<noteq> Name (fixedCfg ''a-b'')"
    and m: "Name (fixedCfg ''users'') \<noteq> Name (fixedCfg ''orders'')"
    by (simp_all add: fixedCfg_def)
  have apart: "\<not> prefix (Name (fixedCfg ''users'') @ ''-'') (Name (fixedCfg ''orders''))
        \<and> \<not> prefix (Name (fixedCfg ''orders'') @ ''-'') (Name (fixedCfg ''users''))"
    by (simp add: fixedCfg_def)
  have frame: "\<forall>K K' p st. K \<noteq> K' \<longrightarrow>
      fst (cmdGet memRedis K' (snd (cmdSet memRedis K p 3000000000 st))) = fst (cmdGet memRedis K' st)"
    by (auto simp: memRedis_def split: option.splits)
  have before: "fst (Get memRedis byteGob (fst (Create (fixedCfg ''a-b'') ?w)) ''k'' ?w) = GoNil"
    and before2: "fst (Get memRedis byteGob (fst (Create (fixedCfg ''orders'') ?w)) ''k2'' ?w) = GoNil"
    by (simp_all add: op_defs inst_defs)
  from namespace_isolation [OF n, where s = ?w and s' = ?w and c = memRedis and d = 3000000000
      and g = byteGob and k = "''k''" and v = "Val ''uint8'' 7" and w = ?w]
    frame before
  have same: "keyPrefix (fst (Create (fixedCfg ''a'') ?w)) @ ''k''
                \<noteq> keyPrefix (fst (Create (fixedCfg ''a-b'') ?w)) @ ''k''
     \<and> fst (Get memRedis byteGob (fst (Create (fixedCfg ''a-b'') ?w)) ''k''
          (snd (Put memRedis byteGob (fst (Create (fixedCfg ''a'') ?w)) ''k''
                 (Val ''uint8'' 7) 3000000000 ?w))) = GoNil"
    by (simp only:) blast
  from namespace_isolation [OF m, where s = ?w and s' = ?w and c = memRedis and d = 3000000000
      and g = byteGob and ?k1.0 = "''k1''" and ?k2.0 = "''k2''" and v = "Val ''uint8'' 7" and w = ?w]
    apart frame before2
  have other: "fst (Get memRedis byteGob (fst (Create (fixedCfg ''orders'') ?w)) ''k2''
          (snd (Put memRedis byteGob (fst (Create (fixedCfg ''users'') ?w)) ''k1''
                 (Val ''uint8'' 7) 3000000000 ?w))) = GoNil"
    by (simp only:) blast
  from n same other show ?thesis
    by blast
qed



text \<open>
  Claim C7. \<open>Delete\<close> sends one \<open>DEL\<close> of the prefixed key. It returns nil when the store
  answers without an error (as it does for a key it does not have) and when it
  answers with the error "redis: nil"; every other error of the store is returned,
  wrapped with the cache name and the key.
\<close>

theorem Delete_idempotent:
  "fst (Delete c r k s) =
     (case fst (cmdDel c (keyPrefix r @ k) (client s)) of
        None \<Rightarrow> None
      | Some m \<Rightarrow>
          if m = ''redis: nil'' then None
          else Some (''aah/cache/'' @ Name (cfg s) @ '': key('' @ k @ '') '' @ m))
   \<and> sent (snd (Delete c r k s)) = sent s @ [DEL (keyPrefix r @ k)]"
proof
  show "fst (Delete c r k s) =
     (case fst (cmdDel c (keyPrefix r @ k) (client s)) of
        None \<Rightarrow> None
      | Some m \<Rightarrow>
          if m = ''redis: nil'' then None
          else Some (''aah/cache/'' @ Name (cfg s) @ '': key('' @ k @ '') '' @ m))"
    by (simp add: Delete_def client_defs notacacheMiss_def verb_v_def redisCache_Name_def Let_def
        split: prod.splits option.splits)
  show "sent (snd (Delete c r k s)) = sent s @ [DEL (keyPrefix r @ k)]"
    by (rule Delete_sent)
qed

text \<open>
  Claim C8. \<open>releaseBuffer\<close> puts a buffer into the pool emptied. \<open>Put\<close> leaves the pool as
  \<open>acquireBuffer\<close> left it when the encoding fails (the buffer is dropped) and with one
  more, empty, buffer when the entry was encoded (the buffer is released, after the
  \<open>SET\<close> and whatever its outcome). So a pool of empty buffers stays one under every
  method, and the buffer \<open>acquireBuffer\<close> hands out of it is empty.
\<close>

theorem bufPool_discipline:
  "bufPool (releaseBuffer (Some b) s) = [] # bufPool s
   \<and> bufPool (snd (Put c g r k v d s)) =
       (case Encode g \<lparr>D = d, V = v\<rparr> of
          Inl err \<Rightarrow> bufPool (snd (acquireBuffer s))
        | Inr out \<Rightarrow> [] # bufPool (snd (acquireBuffer s)))
   \<and> (poolClean s \<longrightarrow>
        fst (acquireBuffer s) = []
        \<and> poolClean (snd (Put c g r k v d s))
        \<and> poolClean (snd (GetOrPut c g r k v d s))
        \<and> poolClean (snd (Get c g r k s))
        \<and> poolClean (snd (Delete c r k s))
        \<and> poolClean (snd (Exists c r k s))
        \<and> poolClean (snd (Flush c r s))
        \<and> poolClean (snd (Create cf s)))"
proof (intro conjI impI)
  show "bufPool (releaseBuffer (Some b) s) = [] # bufPool s"
    by (simp add: releaseBuffer_def Reset_def)
  show "bufPool (snd (Put c g r k v d s)) =
       (case Encode g \<lparr>D = d, V = v\<rparr> of
          Inl err \<Rightarrow> bufPool (snd (acquireBuffer s))
        | Inr out \<Rightarrow> [] # bufPool (snd (acquireBuffer s)))"
    by (rule Put_bufPool)
next
  assume p: "poolClean s"
  from acquireBuffer_clean [OF p] show "fst (acquireBuffer s) = []" by simp
  from p show "poolClean (snd (Put c g r k v d s))" by (rule Put_poolClean)
  from p show "poolClean (snd (GetOrPut c g r k v d s))" by (rule GetOrPut_poolClean)
  from p show "poolClean (snd (Get c g r k s))" by (simp add: Get_poolClean)
  from p show "poolClean (snd (Delete c r k s))" by (simp add: poolClean_def others_bufPool)
  from p show "poolClean (snd (Exists c r k s))" by (simp add: poolClean_def others_bufPool)
  from p show "poolClean (snd (Flush c r s))" by (simp add: poolClean_def others_bufPool)
  from p show "poolClean (snd (Create cf s))" by (simp add: poolClean_def others_bufPool)
qed

theorem bufPool_discipline_witness:
  "poolClean (world0 (fixedCfg ''a''))
   \<and> bufPool (snd (Put memRedis byteGob \<lparr>keyPrefix = ''a-''\<rparr> ''k'' (Val ''uint8'' 7) 3000000000 (world0 (fixedCfg ''a'')))) = [[]]
   \<and> bufPool (snd (Put memRedis byteGob \<lparr>keyPrefix = ''a-''\<rparr> ''k'' (Val ''redis.sample'' 7) 3000000000 (world0 (fixedCfg ''a'')))) = []
   \<and> poolClean (snd (Put memRedis byteGob \<lparr>keyPrefix = ''a-''\<rparr> ''k'' (Val ''uint8'' 7) 3000000000 (world0 (fixedCfg ''a''))))"
proof -
  let ?s = "world0 (fixedCfg ''a'')"
  let ?r = "\<lparr>keyPrefix = ''a-''\<rparr>"
  have p: "poolClean ?s"
    by (simp add: poolClean_def world0_def)
  have e1: "Encode byteGob \<lparr>D = 3000000000, V = Val ''uint8'' 7\<rparr> = Inr [3, 7]"
    and e2: "Encode byteGob \<lparr>D = 3000000000, V = Val ''redis.sample'' 7\<rparr>
              = Inl ''gob: type not registered for interface: redis.sample''"
    by (simp_all add: Encode_def byteGob_def)
  have a: "bufPool (snd (acquireBuffer ?s)) = []"
    by (simp add: acquireBuffer_def world0_def)
  from bufPool_discipline [where s = ?s and c = memRedis and g = byteGob and r = ?r and k = "''k''"
      and v = "Val ''uint8'' 7" and d = 3000000000] p e1 a
  have x: "bufPool (snd (Put memRedis byteGob ?r ''k'' (Val ''uint8'' 7) 3000000000 ?s)) = [[]]
           \<and> poolClean (snd (Put memRedis byteGob ?r ''k'' (Val ''uint8'' 7) 3000000000 ?s))"
    by simp
  from bufPool_discipline [where s = ?s and c = memRedis and g = byteGob and r = ?r and k = "''k''"
      and v = "Val ''redis.sample'' 7" and d = 3000000000] e2 a
  have y: "bufPool (snd (Put memRedis byteGob ?r ''k'' (Val ''redis.sample'' 7) 3000000000 ?s)) = []"
    by simp
  from p x y show ?thesis by simp
qed

text \<open>
  Claim C9. \<open>Create\<close> assigns its config to the provider, which every handle reads through
  its pointer. After a later \<open>Create\<close> with the config \<open>cB\<close>, a handle made from the config
  \<open>cA\<close> reports the name of \<open>cB\<close> and refreshes the ttl on \<open>Get\<close> according to the mode of
  \<open>cB\<close>, while its keys still carry the prefix made from the name of \<open>cA\<close>.
\<close>

theorem Create_shares_cfg:
  "redisCache_Name (fst (Create cA s0)) (snd (Create cB s)) = Name cB
   \<and> keyPrefix (fst (Create cA s0)) = Name cA @ ''-''
   \<and> sent (snd (Delete c (fst (Create cA s0)) k (snd (Create cB s))))
       = sent s @ [DEL (Name cA @ ''-'' @ k)]
   \<and> (Encode g \<lparr>D = d, V = v\<rparr> = Inr out \<longrightarrow>
        sent (snd (Put c g (fst (Create cA s0)) k v d (snd (Create cB s))))
          = sent s @ [SET (Name cA @ ''-'' @ k) (fst (acquireBuffer s) @ out) d])
   \<and> (fst (cmdGet c (Name cA @ ''-'' @ k) (client s)) = Inr payload \<and> Decode g payload = Inr e \<longrightarrow>
        fst (Get c g (fst (Create cA s0)) k (snd (Create cB s))) = V e
        \<and> sent (snd (Get c g (fst (Create cA s0)) k (snd (Create cB s)))) =
            sent s @ GET (Name cA @ ''-'' @ k) #
              (if EvictionMode cB = EvictionModeSlide then [EXPIRE (Name cA @ ''-'' @ k) (D e)] else []))"
proof -
  have put: "sent (snd (Put c g \<lparr>keyPrefix = Name cA @ ''-''\<rparr> k v d (s\<lparr>cfg := cB\<rparr>)))
          = sent s @ [SET (Name cA @ ''-'' @ k) (fst (acquireBuffer s) @ out) d]"
    if enc: "Encode g \<lparr>D = d, V = v\<rparr> = Inr out"
    using Put_encoded [OF enc, of c "\<lparr>keyPrefix = Name cA @ ''-''\<rparr>" k "s\<lparr>cfg := cB\<rparr>"]
    by (simp add: acquireBuffer_cfg)
  then show ?thesis
    by (simp add: Create_result redisCache_Name_def Get_value Get_sent Delete_sent)
qed

theorem Create_shares_cfg_witness:
  "redisCache_Name (fst (Create (fixedCfg ''a'') (world0 (fixedCfg ''a''))))
       (snd (Create (slideCfg ''b'')
          ((world0 (fixedCfg ''a''))\<lparr>client := \<lparr>db = [''a-k'' \<mapsto> [3, 7]], down = None\<rparr>\<rparr>))) = ''b''
   \<and> sent (snd (Get memRedis byteGob (fst (Create (fixedCfg ''a'') (world0 (fixedCfg ''a'')))) ''k''
       (snd (Create (slideCfg ''b'')
          ((world0 (fixedCfg ''a''))\<lparr>client := \<lparr>db = [''a-k'' \<mapsto> [3, 7]], down = None\<rparr>\<rparr>)))))
     = [GET ''a-k'', EXPIRE ''a-k'' 3000000000]"
proof -
  let ?s = "(world0 (fixedCfg ''a''))\<lparr>client := \<lparr>db = [''a-k'' \<mapsto> [3, 7]], down = None\<rparr>\<rparr>"
  have g: "fst (cmdGet memRedis (Name (fixedCfg ''a'') @ ''-'' @ ''k'') (client ?s)) = Inr [3, 7]"
    by (simp add: inst_defs)
  have d: "Decode byteGob [3, 7] = Inr \<lparr>D = 3000000000, V = Val ''uint8'' 7\<rparr>"
    by (simp add: byteGob_def)
  from Create_shares_cfg [where cA = "fixedCfg ''a''" and ?s0.0 = "world0 (fixedCfg ''a'')"
      and cB = "slideCfg ''b''" and s = ?s and c = memRedis and g = byteGob and k = "''k''"
      and payload = "[3, 7]" and e = "\<lparr>D = 3000000000, V = Val ''uint8'' 7\<rparr>"] g d
  show ?thesis
    by (simp add: inst_defs)
qed

text \<open>
  Claim C10. When the stored entry decodes to a nil \<open>V\<close>, \<open>Get\<close> returns nil, as it does on
  a key the store does not have; \<open>Exists\<close> is true as long as the store reports the key;
  and \<open>GetOrPut\<close> runs \<open>Put\<close>, returning the supplied value when \<open>Put\<close> succeeds, with the
  \<open>SET\<close> of the new entry under the same key as the last command sent.
\<close>

theorem stored_nil_reads_as_absent:
  assumes got: "fst (cmdGet c (keyPrefix r @ k) (client s)) = Inr payload"
    and dec: "Decode g payload = Inr e"
    and nil: "V e = GoNil"
  shows "fst (Get c g r k s) = GoNil
     \<and> (fst (cmdGet c (keyPrefix r @ k) (client s')) = Inl ''redis: nil''
          \<longrightarrow> fst (Get c g r k s') = fst (Get c g r k s))
     \<and> (fst (cmdExists c (keyPrefix r @ k) (client s)) = Inr 1 \<longrightarrow> fst (Exists c r k s))
     \<and> GetOrPut c g r k v d s =
         ((case fst (Put c g r k v d (snd (Get c g r k s))) of
             None \<Rightarrow> (v, None)
           | Some m \<Rightarrow> (GoNil, Some m)),
          snd (Put c g r k v d (snd (Get c g r k s))))
     \<and> (Encode g \<lparr>D = d, V = v\<rparr> = Inr out \<longrightarrow>
          last (sent (snd (GetOrPut c g r k v d s)))
            = SET (keyPrefix r @ k) (fst (acquireBuffer s) @ out) d)"
proof -
  from got dec nil have g: "fst (Get c g r k s) = GoNil"
    by (simp add: Get_value)
  have st: "snd (GetOrPut c g r k v d s) = snd (Put c g r k v d (snd (Get c g r k s)))"
    using g by (simp add: GetOrPut_state)
  have res: "fst (GetOrPut c g r k v d s) =
      (case fst (Put c g r k v d (snd (Get c g r k s))) of
         None \<Rightarrow> (v, None) | Some m \<Rightarrow> (GoNil, Some m))"
    using g by (simp add: GetOrPut_result)
  have wr: "last (sent (snd (GetOrPut c g r k v d s)))
              = SET (keyPrefix r @ k) (fst (acquireBuffer s) @ out) d"
    if enc: "Encode g \<lparr>D = d, V = v\<rparr> = Inr out"
    using Put_encoded [OF enc, of c r k "snd (Get c g r k s)"] st
    by (simp add: acquireBuffer_Get)
  from g st res wr show ?thesis
    by (simp add: Get_value Exists_value prod_eq_iff)
qed

theorem stored_nil_reads_as_absent_witness:
  "fst (Get memRedis byteGob \<lparr>keyPrefix = ''a-''\<rparr> ''k''
        (snd (Put memRedis byteGob \<lparr>keyPrefix = ''a-''\<rparr> ''k'' GoNil 3000000000 (world0 (fixedCfg ''a''))))) = GoNil
   \<and> fst (Get memRedis byteGob \<lparr>keyPrefix = ''a-''\<rparr> ''k'' (world0 (fixedCfg ''a''))) = GoNil
   \<and> fst (Exists memRedis \<lparr>keyPrefix = ''a-''\<rparr> ''k''
        (snd (Put memRedis byteGob \<lparr>keyPrefix = ''a-''\<rparr> ''k'' GoNil 3000000000 (world0 (fixedCfg ''a'')))))
   \<and> \<not> fst (Exists memRedis \<lparr>keyPrefix = ''a-''\<rparr> ''k'' (world0 (fixedCfg ''a'')))
   \<and> fst (GetOrPut memRedis byteGob \<lparr>keyPrefix = ''a-''\<rparr> ''k'' (Val ''uint8'' 9) 5000000000
        (snd (Put memRedis byteGob \<lparr>keyPrefix = ''a-''\<rparr> ''k'' GoNil 3000000000 (world0 (fixedCfg ''a'')))))
       = (Val ''uint8'' 9, None)
   \<and> last (sent (snd (GetOrPut memRedis byteGob \<lparr>keyPrefix = ''a-''\<rparr> ''k'' (Val ''uint8'' 9) 5000000000
        (snd (Put memRedis byteGob \<lparr>keyPrefix = ''a-''\<rparr> ''k'' GoNil 3000000000 (world0 (fixedCfg ''a'')))))))
       = SET ''a-k'' [5, 9] 5000000000"
proof -
  let ?r = "\<lparr>keyPrefix = ''a-''\<rparr>"
  let ?w = "world0 (fixedCfg ''a'')"
  let ?s = "snd (Put memRedis byteGob ?r ''k'' GoNil 3000000000 ?w)"
  have cl: "client ?s = \<lparr>db = [''a-k'' \<mapsto> [3]], down = None\<rparr>" and bp: "bufPool ?s = [[]]"
    by (simp_all add: op_defs inst_defs)
  have got: "fst (cmdGet memRedis (keyPrefix ?r @ ''k'') (client ?s)) = Inr [3]"
    by (simp add: cl) (simp add: memRedis_def)
  have dec: "Decode byteGob [3] = Inr \<lparr>D = 3000000000, V = GoNil\<rparr>"
    by (simp add: byteGob_def)
  have nil: "V \<lparr>D = 3000000000, V = (GoNil :: 8 word iface)\<rparr> = GoNil"
    by simp
  have miss: "fst (cmdGet memRedis (keyPrefix ?r @ ''k'') (client ?w)) = Inl ''redis: nil''"
    by (simp add: inst_defs)
  have ex: "fst (cmdExists memRedis (keyPrefix ?r @ ''k'') (client ?s)) = Inr 1"
    by (simp add: cl) (simp add: memRedis_def)
  have enc: "Encode byteGob \<lparr>D = 5000000000, V = Val ''uint8'' 9\<rparr> = Inr [5, 9]"
    by (simp add: Encode_def byteGob_def)
  have put: "fst (Put memRedis byteGob ?r ''k'' (Val ''uint8'' 9) 5000000000 (snd (Get memRedis byteGob ?r ''k'' ?s))) = None"
    by (simp add: op_defs inst_defs)
  have acq: "fst (acquireBuffer ?s) = []"
    by (simp add: acquireBuffer_def bp)
  have nex: "\<not> fst (Exists memRedis ?r ''k'' ?w)"
    by (simp add: Exists_value inst_defs)
  from stored_nil_reads_as_absent [OF got dec nil, where s' = ?w and v = "Val ''uint8'' 9"
      and d = 5000000000 and out = "[5, 9]"] miss ex enc put acq nex
  show ?thesis
    by (clarsimp simp: prod_eq_iff)
qed

end
